theory Spec2Isabelle
  imports Main
begin

section \<open>mask-phone: a shallow embedding of \<open>src/index.ts\<close> and \<open>src/types.ts\<close>\<close>

text \<open>
  The library masks phone numbers for display. This theory translates its functions one by
  one and proves the properties its specification states about them.

  Conventions of the embedding:
  \<^item> A JavaScript string is a \<open>string\<close>: a list of code units, here the units below 256.
    \<open>split("")\<close> is the list itself, \<open>join("")\<close> is concatenation, \<open>.length\<close> is \<open>length\<close>.
  \<^item> The counts \<open>showFirst\<close>, \<open>showLast\<close>, the range bounds and the indices are integers
    (\<open>int\<close>); NaN, infinities and fractions are outside the model.
  \<^item> An optional field, parameter or property is an \<open>option\<close>: \<open>None\<close> stands for
    \<open>undefined\<close> (and for \<open>null\<close>, which \<open>??\<close>, \<open>?.\<close> and \<open>!\<close> treat alike).
  \<^item> Nothing in the library catches an exception, so what is thrown inside \<open>maskPhone\<close>
    leaves it. Two things can throw: \<open>String(phone)\<close>, with a TypeError, and the caller's
    \<open>customMask\<close> callback, with anything. The callback is a function that returns either
    the replacement string (\<open>Inr\<close>) or what it throws (\<open>Inl\<close>), and \<open>maskPhone\<close> returns the
    same sum.
\<close>

subsection \<open>Input values\<close>

text \<open>
  \<open>PhoneInput\<close> is declared as \<open>string | number\<close>, but \<open>normalizePhone\<close> inspects its argument
  at run time (null, undefined, objects with a \<open>phone\<close> property), and the tests call it with
  such values. \<open>JNumber n\<close> is a safe integer (magnitude below \<open>2^53\<close>), which JavaScript
  prints in plain decimal notation. \<open>JObject\<close> is a plain object, given by its own properties;
  their values are values of this type, so none of them is a function.
\<close>

datatype jsval =
    JNull
  | JUndefined
  | JString string
  | JNumber int
  | JBoolean bool
  | JObject "(string \<times> jsval) list"

definition digit_char :: "nat \<Rightarrow> char" where
  "digit_char d = char_of (48 + d)"

function nat_to_string :: "nat \<Rightarrow> string" where
  "nat_to_string n =
     (if n < 10 then [digit_char n]
      else nat_to_string (n div 10) @ [digit_char (n mod 10)])"
  by pat_completeness auto
termination
  by (relation "measure id") auto

declare nat_to_string.simps [simp del]

text \<open>
  \<open>String(value)\<close> for the values above; \<open>None\<close> when it throws a TypeError. For an object
  the conversion calls the object's \<open>toString\<close> method. A plain object inherits one, which
  returns \<open>[object Object]\<close>. A property of its own named \<open>toString\<close> hides the inherited
  method and is not callable here; the conversion then turns to \<open>valueOf\<close>, which yields no
  primitive value either (its own is not callable, the inherited one returns the object),
  and throws.
\<close>

fun ToString :: "jsval \<Rightarrow> string option" where
  "ToString JNull = Some ''null''"
| "ToString JUndefined = Some ''undefined''"
| "ToString (JString s) = Some s"
| "ToString (JNumber n) =
     Some (if n < 0 then CHR ''-'' # nat_to_string (nat (- n)) else nat_to_string (nat n))"
| "ToString (JBoolean b) = Some (if b then ''true'' else ''false'')"
| "ToString (JObject props) =
     (case map_of props ''toString'' of
        Some v \<Rightarrow> None
      | None \<Rightarrow> Some ''[object Object]'')"

text \<open>
  What can be thrown out of \<open>maskPhone\<close>: the TypeError of \<open>String\<close>, or a value that the
  \<open>customMask\<close> callback throws.
\<close>

datatype 'e thrown = TypeError | Thrown 'e

subsection \<open>Character classes of the regular expressions\<close>

text \<open>\<open>\d\<close>: the decimal digits \<open>0\<close> to \<open>9\<close>.\<close>

definition isDigit :: "char \<Rightarrow> bool" where
  "isDigit c = (c \<in> set ''0123456789'')"

text \<open>
  \<open>\s\<close>, which is also what \<open>trim()\<close> removes: tab, line feed, vertical tab, form feed,
  carriage return, space and the no-break space.
\<close>

definition isWhiteSpace :: "char \<Rightarrow> bool" where
  "isWhiteSpace c =
     (c \<in> set [CHR 0x09, CHR 0x0A, CHR 0x0B, CHR 0x0C, CHR 0x0D, CHR '' '', CHR 0xA0])"

definition trim :: "string \<Rightarrow> string" where
  "trim s = rev (dropWhile isWhiteSpace (rev (dropWhile isWhiteSpace s)))"

subsection \<open>Options (\<open>src/types.ts\<close>)\<close>

type_synonym 'e customMask_fn = "char \<Rightarrow> nat \<Rightarrow> string \<Rightarrow> 'e + string"

text \<open>\<open>MaskOptions\<close>: every field is optional.\<close>

record 'e MaskOptions =
  opt_maskChar :: "string option"
  opt_showFirst :: "int option"
  opt_showLast :: "int option"
  opt_showStart :: "int option"
  opt_showEnd :: "int option"
  opt_visibleRanges :: "(int \<times> int) list option"
  opt_preserveFormat :: "bool option"
  opt_customMask :: "'e customMask_fn option"

text \<open>\<open>DEFAULT_OPTIONS\<close>.\<close>

definition DEFAULT_OPTIONS_maskChar :: string where
  "DEFAULT_OPTIONS_maskChar = ''*''"

definition DEFAULT_OPTIONS_showLast :: int where
  "DEFAULT_OPTIONS_showLast = 4"

definition DEFAULT_OPTIONS_preserveFormat :: bool where
  "DEFAULT_OPTIONS_preserveFormat = False"

text \<open>\<open>NormalizedOptions\<close>: aliases resolved, defaults filled in.\<close>

record 'e NormalizedOptions =
  maskChar :: string
  showFirst :: int
  showLast :: int
  visibleRanges :: "(int \<times> int) list option"
  preserveFormat :: bool
  customMask :: "'e customMask_fn option"

subsection \<open>\<open>normalizePhone\<close> and \<open>stripFormatting\<close>\<close>

text \<open>
  \<open>phone == null\<close> holds for null and undefined. An object that has a \<open>phone\<close> property is
  replaced by that property's value, whatever it is; then \<open>String(...).trim()\<close>. The result
  is \<open>None\<close> when \<open>String\<close> throws.
\<close>

definition normalizePhone :: "jsval \<Rightarrow> string option" where
  "normalizePhone phone =
     (if phone = JNull \<or> phone = JUndefined then Some []
      else
        let phone' =
          (case phone of
             JObject props \<Rightarrow>
               (case map_of props ''phone'' of Some v \<Rightarrow> v | None \<Rightarrow> phone)
           | _ \<Rightarrow> phone)
        in (case ToString phone' of
              None \<Rightarrow> None
            | Some phoneStr \<Rightarrow> Some (trim phoneStr)))"

text \<open>\<open>phone.replace(/[^\d+]/g, "")\<close>.\<close>

definition stripFormatting :: "string \<Rightarrow> string" where
  "stripFormatting phone = filter (\<lambda>c. isDigit c \<or> c = CHR ''+'') phone"

subsection \<open>\<open>normalizeOptions\<close>\<close>

text \<open>\<open>a ?? b\<close> with a default that is always there, and with one that may be missing too.\<close>

definition nullish :: "'a option \<Rightarrow> 'a \<Rightarrow> 'a" where
  "nullish a b = (case a of Some v \<Rightarrow> v | None \<Rightarrow> b)"

definition nullish_opt :: "'a option \<Rightarrow> 'a option \<Rightarrow> 'a option" where
  "nullish_opt a b = (case a of Some v \<Rightarrow> Some v | None \<Rightarrow> b)"

definition normalizeOptions :: "'e MaskOptions option \<Rightarrow> 'e NormalizedOptions" where
  "normalizeOptions options =
     (case options of
        None \<Rightarrow>
          \<lparr> maskChar = DEFAULT_OPTIONS_maskChar,
            showFirst = 0,
            showLast = DEFAULT_OPTIONS_showLast,
            visibleRanges = None,
            preserveFormat = DEFAULT_OPTIONS_preserveFormat,
            customMask = None \<rparr>
      | Some opts \<Rightarrow>
          \<lparr> maskChar = nullish (opt_maskChar opts) DEFAULT_OPTIONS_maskChar,
            showFirst = nullish (nullish_opt (opt_showFirst opts) (opt_showStart opts)) 0,
            showLast =
              nullish (nullish_opt (opt_showLast opts) (opt_showEnd opts))
                DEFAULT_OPTIONS_showLast,
            visibleRanges = opt_visibleRanges opts,
            preserveFormat = nullish (opt_preserveFormat opts) DEFAULT_OPTIONS_preserveFormat,
            customMask = opt_customMask opts \<rparr>)"

subsection \<open>\<open>isCharVisible\<close> and \<open>isFormattingChar\<close>\<close>

text \<open>
  An array is truthy even when empty, so the first test asks for a present and non-empty
  \<open>visibleRanges\<close>; \<open>some\<close> is \<open>list_ex\<close>.
\<close>

definition isCharVisible :: "int \<Rightarrow> int \<Rightarrow> 'e NormalizedOptions \<Rightarrow> bool" where
  "isCharVisible index len options =
     (case visibleRanges options of
        Some ranges \<Rightarrow>
          if length ranges > 0
          then list_ex (\<lambda>(start, end). index \<ge> start \<and> index \<le> end) ranges
          else if showFirst options > 0 \<and> index < showFirst options then True
          else if showLast options > 0 \<and> index \<ge> len - showLast options then True
          else False
      | None \<Rightarrow>
          if showFirst options > 0 \<and> index < showFirst options then True
          else if showLast options > 0 \<and> index \<ge> len - showLast options then True
          else False)"

text \<open>\<open>/[\s\-().\+]/.test(char)\<close>.\<close>

definition isFormattingChar :: "char \<Rightarrow> bool" where
  "isFormattingChar c = (isWhiteSpace c \<or> c \<in> set ''-().+'')"

subsection \<open>The two masking strategies\<close>

text \<open>
  \<open>join("")\<close> over the results of the \<open>map\<close> callback. The first fault of the callback, from
  the left, aborts \<open>map\<close> and is the outcome.
\<close>

fun join :: "('e + string) list \<Rightarrow> 'e + string" where
  "join [] = Inr []"
| "join (Inl e # rs) = Inl e"
| "join (Inr s # rs) = (case join rs of Inl e \<Rightarrow> Inl e | Inr t \<Rightarrow> Inr (s @ t))"

text \<open>
  The callback of \<open>maskWithFormat\<close>, applied to the characters from \<open>charIndex\<close> on. The
  variable \<open>digitIndex\<close>, which the callback increments, is passed along.
\<close>

fun maskWithFormat_map ::
  "'e NormalizedOptions \<Rightarrow> string \<Rightarrow> int \<Rightarrow> int \<Rightarrow> nat \<Rightarrow> char list \<Rightarrow> ('e + string) list"
where
  "maskWithFormat_map options phone totalDigits digitIndex charIndex [] = []"
| "maskWithFormat_map options phone totalDigits digitIndex charIndex (char # rest) =
     (case customMask options of
        Some f \<Rightarrow>
          f char charIndex phone
            # maskWithFormat_map options phone totalDigits digitIndex (Suc charIndex) rest
      | None \<Rightarrow>
          if isFormattingChar char
          then Inr [char]
            # maskWithFormat_map options phone totalDigits digitIndex (Suc charIndex) rest
          else
            let digitIndex' = digitIndex + 1 in
            (if isCharVisible digitIndex' totalDigits options then Inr [char]
             else Inr (maskChar options))
            # maskWithFormat_map options phone totalDigits digitIndex' (Suc charIndex) rest)"

definition maskWithFormat :: "string \<Rightarrow> 'e NormalizedOptions \<Rightarrow> 'e + string" where
  "maskWithFormat phone options =
     (let digits = filter isDigit phone;
          totalDigits = int (length digits)
      in join (maskWithFormat_map options phone totalDigits (- 1) 0 phone))"

text \<open>The callback of \<open>maskWithoutFormat\<close>, applied to the characters from \<open>index\<close> on.\<close>

fun maskWithoutFormat_map ::
  "'e NormalizedOptions \<Rightarrow> string \<Rightarrow> int \<Rightarrow> nat \<Rightarrow> char list \<Rightarrow> ('e + string) list"
where
  "maskWithoutFormat_map options stripped len index [] = []"
| "maskWithoutFormat_map options stripped len index (char # rest) =
     (case customMask options of
        Some f \<Rightarrow> f char index stripped
      | None \<Rightarrow>
          if char = CHR ''+'' then Inr [char]
          else if isCharVisible (int index) len options then Inr [char]
          else Inr (maskChar options))
     # maskWithoutFormat_map options stripped len (Suc index) rest"

definition maskWithoutFormat :: "string \<Rightarrow> 'e NormalizedOptions \<Rightarrow> 'e + string" where
  "maskWithoutFormat phone options =
     (let stripped = stripFormatting phone;
          len = int (length stripped)
      in join (maskWithoutFormat_map options stripped len 0 stripped))"

subsection \<open>\<open>maskPhone\<close>\<close>

text \<open>\<open>options?.customMask\<close> and \<open>options?.visibleRanges\<close>.\<close>

definition optional_customMask :: "'e MaskOptions option \<Rightarrow> 'e customMask_fn option" where
  "optional_customMask options =
     (case options of None \<Rightarrow> None | Some opts \<Rightarrow> opt_customMask opts)"

definition optional_visibleRanges :: "'e MaskOptions option \<Rightarrow> (int \<times> int) list option" where
  "optional_visibleRanges options =
     (case options of None \<Rightarrow> None | Some opts \<Rightarrow> opt_visibleRanges opts)"

text \<open>
  The callback of the options throws values of type \<open>'e thrown\<close>, and so does \<open>maskPhone\<close>:
  the TypeError of \<open>normalizePhone\<close> before anything else, a fault of the callback later.
\<close>

definition maskPhone :: "jsval \<Rightarrow> 'e thrown MaskOptions option \<Rightarrow> 'e thrown + string" where
  "maskPhone phone options =
     (case normalizePhone phone of
        None \<Rightarrow> Inl TypeError
      | Some phoneStr \<Rightarrow>
          if phoneStr = [] then Inr []
          else
            let normalizedOpts = normalizeOptions options;
                stripped = stripFormatting phoneStr;
                totalVisible = showFirst normalizedOpts + showLast normalizedOpts
            in
              if optional_customMask options = None
                 \<and> optional_visibleRanges options = None
                 \<and> int (length stripped) \<le> totalVisible
              then Inr phoneStr
              else if preserveFormat normalizedOpts
              then maskWithFormat phoneStr normalizedOpts
              else maskWithoutFormat phoneStr normalizedOpts)"

text \<open>The options object \<open>{}\<close>, from which the examples below build theirs.\<close>

definition emptyOptions :: "'e MaskOptions" where
  "emptyOptions =
     \<lparr> opt_maskChar = None, opt_showFirst = None, opt_showLast = None, opt_showStart = None,
       opt_showEnd = None, opt_visibleRanges = None, opt_preserveFormat = None,
       opt_customMask = None \<rparr>"

section \<open>Properties\<close>

lemmas DEFAULT_OPTIONS_defs =
  DEFAULT_OPTIONS_maskChar_def DEFAULT_OPTIONS_showLast_def DEFAULT_OPTIONS_preserveFormat_def

subsection \<open>Option resolution\<close>

text \<open>
  C6. For every options object, \<open>normalizeOptions\<close> yields: \<open>maskChar\<close> is \<open>options.maskChar\<close> if
  provided, else \<open>*\<close>; \<open>showFirst\<close> is \<open>options.showFirst\<close> if defined, else \<open>options.showStart\<close>
  if defined, else 0; \<open>showLast\<close> is \<open>options.showLast\<close> if defined, else \<open>options.showEnd\<close> if
  defined, else 4. So \<open>showFirst\<close> wins over \<open>showStart\<close>, \<open>showLast\<close> over \<open>showEnd\<close>, and the
  defaults (also when no options object is passed at all) are 0, 4 and \<open>*\<close>.
\<close>

theorem normalizeOptions_resolution:
  "maskChar (normalizeOptions (Some (opts :: 'e MaskOptions))) =
     (case opt_maskChar opts of Some m \<Rightarrow> m | None \<Rightarrow> ''*'')
   \<and> showFirst (normalizeOptions (Some opts)) =
     (case opt_showFirst opts of Some a \<Rightarrow> a
      | None \<Rightarrow> (case opt_showStart opts of Some b \<Rightarrow> b | None \<Rightarrow> 0))
   \<and> showLast (normalizeOptions (Some opts)) =
     (case opt_showLast opts of Some a \<Rightarrow> a
      | None \<Rightarrow> (case opt_showEnd opts of Some b \<Rightarrow> b | None \<Rightarrow> 4))
   \<and> maskChar (normalizeOptions (None :: 'e MaskOptions option)) = ''*''
   \<and> showFirst (normalizeOptions (None :: 'e MaskOptions option)) = 0
   \<and> showLast (normalizeOptions (None :: 'e MaskOptions option)) = 4"
  by (simp add: normalizeOptions_def nullish_def nullish_opt_def DEFAULT_OPTIONS_defs
      split: option.splits)

text \<open>\<open>{showFirst: 2, showStart: 5, showEnd: 3}\<close> resolves to 2, 3 and \<open>*\<close>.\<close>

theorem normalizeOptions_resolution_witness:
  "showFirst (normalizeOptions
       (Some ((emptyOptions :: unit MaskOptions)\<lparr>opt_showFirst := Some 2, opt_showStart := Some 5,
          opt_showEnd := Some 3\<rparr>))) = 2
   \<and> showLast (normalizeOptions
       (Some ((emptyOptions :: unit MaskOptions)\<lparr>opt_showFirst := Some 2, opt_showStart := Some 5,
          opt_showEnd := Some 3\<rparr>))) = 3
   \<and> maskChar (normalizeOptions
       (Some ((emptyOptions :: unit MaskOptions)\<lparr>opt_showFirst := Some 2, opt_showStart := Some 5,
          opt_showEnd := Some 3\<rparr>))) = ''*''"
  using normalizeOptions_resolution
    [of "(emptyOptions :: unit MaskOptions)\<lparr>opt_showFirst := Some 2, opt_showStart := Some 5,
          opt_showEnd := Some 3\<rparr>"]
  by (simp add: emptyOptions_def)

subsection \<open>The visibility predicate\<close>

text \<open>
  C2. For every index \<open>i\<close>, total count \<open>n\<close> and resolved options: if \<open>visibleRanges\<close> is present
  and non-empty, \<open>isCharVisible\<close> is true exactly when \<open>i\<close> lies in some inclusive range
  \<open>[start, end]\<close> of it (the union of the ranges, whatever \<open>showFirst\<close> and \<open>showLast\<close> are);
  otherwise it is true exactly when \<open>showFirst > 0\<close> and \<open>i < showFirst\<close>, or \<open>showLast > 0\<close> and
  \<open>i \<ge> n - showLast\<close>.
\<close>

theorem isCharVisible_spec:
  "(visibleRanges options = Some rs \<and> rs \<noteq> [] \<longrightarrow>
      isCharVisible i n options = (\<exists>(start, end) \<in> set rs. start \<le> i \<and> i \<le> end))
   \<and> (visibleRanges options = None \<or> visibleRanges options = Some [] \<longrightarrow>
      isCharVisible i n options =
        ((showFirst options > 0 \<and> i < showFirst options)
         \<or> (showLast options > 0 \<and> i \<ge> n - showLast options)))"
  by (auto simp add: isCharVisible_def list_ex_iff)

text \<open>
  With the ranges \<open>[[0,2],[8,9]]\<close> index 8 is visible and index 7 is not, although
  \<open>showLast = 4\<close> would show it; with no ranges, or an empty list of them, \<open>showLast = 4\<close> of
  10 shows index 7 and hides index 5.
\<close>

theorem isCharVisible_spec_witness:
  "isCharVisible 8 10
      (\<lparr>maskChar = ''*'', showFirst = 0, showLast = 4, visibleRanges = Some [(0, 2), (8, 9)],
        preserveFormat = False, customMask = None\<rparr> :: unit NormalizedOptions)
   \<and> \<not> isCharVisible 7 10
      (\<lparr>maskChar = ''*'', showFirst = 0, showLast = 4, visibleRanges = Some [(0, 2), (8, 9)],
        preserveFormat = False, customMask = None\<rparr> :: unit NormalizedOptions)
   \<and> isCharVisible 7 10
      (\<lparr>maskChar = ''*'', showFirst = 0, showLast = 4, visibleRanges = Some [],
        preserveFormat = False, customMask = None\<rparr> :: unit NormalizedOptions)
   \<and> \<not> isCharVisible 5 10
      (\<lparr>maskChar = ''*'', showFirst = 0, showLast = 4, visibleRanges = None,
        preserveFormat = False, customMask = None\<rparr> :: unit NormalizedOptions)"
  using
    isCharVisible_spec [of "\<lparr>maskChar = ''*'', showFirst = 0, showLast = 4,
        visibleRanges = Some [(0, 2), (8, 9)], preserveFormat = False,
        customMask = None\<rparr> :: unit NormalizedOptions" "[(0, 2), (8, 9)]" 8 10]
    isCharVisible_spec [of "\<lparr>maskChar = ''*'', showFirst = 0, showLast = 4,
        visibleRanges = Some [(0, 2), (8, 9)], preserveFormat = False,
        customMask = None\<rparr> :: unit NormalizedOptions" "[(0, 2), (8, 9)]" 7 10]
    isCharVisible_spec [of "\<lparr>maskChar = ''*'', showFirst = 0, showLast = 4,
        visibleRanges = Some [], preserveFormat = False,
        customMask = None\<rparr> :: unit NormalizedOptions" "[]" 7 10]
    isCharVisible_spec [of "\<lparr>maskChar = ''*'', showFirst = 0, showLast = 4,
        visibleRanges = None, preserveFormat = False,
        customMask = None\<rparr> :: unit NormalizedOptions" "[]" 5 10]
  by simp

text \<open>
  C7. For every negative value of \<open>showFirst\<close> (respectively \<open>showLast\<close>), every index and every
  total count, \<open>isCharVisible\<close> returns what it returns with that field set to 0: a negative
  value fails the \<open>> 0\<close> guard and adds no visibility at its end.
\<close>

theorem isCharVisible_negative_as_zero:
  "(sf < 0 \<longrightarrow>
      isCharVisible i n (options\<lparr>showFirst := sf\<rparr>)
        = isCharVisible i n (options\<lparr>showFirst := 0\<rparr>))
   \<and> (sl < 0 \<longrightarrow>
      isCharVisible i n (options\<lparr>showLast := sl\<rparr>)
        = isCharVisible i n (options\<lparr>showLast := 0\<rparr>))"
  by (auto simp add: isCharVisible_def split: option.splits)

theorem isCharVisible_negative_as_zero_witness:
  "(- 1 :: int) < 0
   \<and> isCharVisible 0 10
        ((\<lparr>maskChar = ''*'', showFirst = 3, showLast = 4, visibleRanges = None,
           preserveFormat = False, customMask = None\<rparr> :: unit NormalizedOptions)
         \<lparr>showFirst := - 1\<rparr>)
     = isCharVisible 0 10
        ((\<lparr>maskChar = ''*'', showFirst = 3, showLast = 4, visibleRanges = None,
           preserveFormat = False, customMask = None\<rparr> :: unit NormalizedOptions)
         \<lparr>showFirst := 0\<rparr>)
   \<and> isCharVisible 9 10
        ((\<lparr>maskChar = ''*'', showFirst = 3, showLast = 4, visibleRanges = None,
           preserveFormat = False, customMask = None\<rparr> :: unit NormalizedOptions)
         \<lparr>showLast := - 1\<rparr>)
     = isCharVisible 9 10
        ((\<lparr>maskChar = ''*'', showFirst = 3, showLast = 4, visibleRanges = None,
           preserveFormat = False, customMask = None\<rparr> :: unit NormalizedOptions)
         \<lparr>showLast := 0\<rparr>)"
  using
    isCharVisible_negative_as_zero [of "- 1" 0 10
      "\<lparr>maskChar = ''*'', showFirst = 3, showLast = 4, visibleRanges = None,
         preserveFormat = False, customMask = None\<rparr> :: unit NormalizedOptions" 0]
    isCharVisible_negative_as_zero [of 0 9 10
      "\<lparr>maskChar = ''*'', showFirst = 3, showLast = 4, visibleRanges = None,
         preserveFormat = False, customMask = None\<rparr> :: unit NormalizedOptions" "- 1"]
  by simp

subsection \<open>Empty input and the bypass\<close>

lemma trim_all_whitespace:
  assumes "\<forall>c \<in> set s. isWhiteSpace c"
  shows "trim s = []"
proof -
  have d: "dropWhile isWhiteSpace s = []"
    using assms by simp
  show ?thesis
    unfolding trim_def d by simp
qed

text \<open>Where \<open>String\<close> throws, \<open>maskPhone\<close> throws the same TypeError, whatever the options.\<close>

lemma maskPhone_TypeError:
  assumes "normalizePhone phone = None"
  shows "maskPhone phone options = Inl TypeError"
  using assms by (simp add: maskPhone_def)

lemma normalizePhone_own_toString:
  assumes "map_of props ''phone'' = None" and "map_of props ''toString'' = Some v"
  shows "normalizePhone (JObject props) = None"
  using assms by (simp add: normalizePhone_def)

text \<open>
  C8. Whatever the options (also with \<open>customMask\<close> or \<open>visibleRanges\<close>), \<open>maskPhone\<close> returns
  the empty string when the input is null, undefined, the empty string, or a string of
  whitespace only.
\<close>

theorem maskPhone_empty_input:
  assumes "phone = JNull \<or> phone = JUndefined
           \<or> (\<exists>s. phone = JString s \<and> (\<forall>c \<in> set s. isWhiteSpace c))"
  shows "maskPhone phone options = Inr []"
proof -
  have "normalizePhone phone = Some []"
    using assms by (auto simp add: normalizePhone_def trim_all_whitespace)
  then show ?thesis
    by (simp add: maskPhone_def)
qed

theorem maskPhone_empty_input_witness:
  "maskPhone (JString ''   '')
      (Some ((emptyOptions :: unit thrown MaskOptions)\<lparr>opt_visibleRanges := Some [(0, 1)]\<rparr>)) = Inr []
   \<and> maskPhone JNull (None :: unit thrown MaskOptions option) = Inr []"
proof -
  have ws: "\<forall>c \<in> set ''   ''. isWhiteSpace c"
    by (simp add: isWhiteSpace_def)
  show ?thesis
    using maskPhone_empty_input [of "JString ''   ''"
        "Some ((emptyOptions :: unit thrown MaskOptions)\<lparr>opt_visibleRanges := Some [(0, 1)]\<rparr>)"]
      maskPhone_empty_input [of JNull "None :: unit thrown MaskOptions option"] ws
    by simp
qed

text \<open>
  C1. For every input and every options argument that supplies neither \<open>customMask\<close> nor
  \<open>visibleRanges\<close>: if \<open>stripFormatting\<close> of the normalized input string is no longer than the
  resolved \<open>showFirst\<close> plus the resolved \<open>showLast\<close>, then \<open>maskPhone\<close> returns the normalized
  input string unchanged. (The normalized input string \<open>phoneStr\<close> is what \<open>normalizePhone\<close>
  returns; there is none where \<open>String\<close> throws.)
\<close>

theorem maskPhone_bypass:
  assumes "optional_customMask options = None"
    and "optional_visibleRanges options = None"
    and "normalizePhone phone = Some phoneStr"
    and "int (length (stripFormatting phoneStr))
           \<le> showFirst (normalizeOptions options) + showLast (normalizeOptions options)"
  shows "maskPhone phone options = Inr phoneStr"
  using assms by (simp add: maskPhone_def Let_def)

text \<open>
  \<open>maskPhone(" (12) 34", {showFirst: 2, showLast: 2})\<close>: four characters survive the
  stripping, which is not more than \<open>2 + 2\<close>, and the trimmed input comes back with its
  parentheses and its space.
\<close>

theorem maskPhone_bypass_witness:
  "optional_customMask
      (Some ((emptyOptions :: unit thrown MaskOptions)\<lparr>opt_showFirst := Some 2, opt_showLast := Some 2\<rparr>))
     = None
   \<and> optional_visibleRanges
      (Some ((emptyOptions :: unit thrown MaskOptions)\<lparr>opt_showFirst := Some 2, opt_showLast := Some 2\<rparr>))
     = None
   \<and> normalizePhone (JString '' (12) 34'') = Some ''(12) 34''
   \<and> stripFormatting ''(12) 34'' = ''1234''
   \<and> maskPhone (JString '' (12) 34'')
      (Some ((emptyOptions :: unit thrown MaskOptions)\<lparr>opt_showFirst := Some 2, opt_showLast := Some 2\<rparr>))
     = Inr ''(12) 34''"
proof -
  let ?opts = "Some ((emptyOptions :: unit thrown MaskOptions)
                 \<lparr>opt_showFirst := Some 2, opt_showLast := Some 2\<rparr>)"
  have c: "optional_customMask ?opts = None"
    by (simp add: optional_customMask_def emptyOptions_def)
  have v: "optional_visibleRanges ?opts = None"
    by (simp add: optional_visibleRanges_def emptyOptions_def)
  have n: "normalizePhone (JString '' (12) 34'') = Some ''(12) 34''"
    by code_simp
  have s: "stripFormatting ''(12) 34'' = ''1234''"
    by code_simp
  have o: "showFirst (normalizeOptions ?opts) + showLast (normalizeOptions ?opts) = 4"
    by code_simp
  have l: "int (length (stripFormatting ''(12) 34''))
             \<le> showFirst (normalizeOptions ?opts) + showLast (normalizeOptions ?opts)"
    by (simp add: s o)
  show ?thesis
    using maskPhone_bypass [OF c v n l] c v n s by simp
qed

subsection \<open>The two \<open>map\<close> loops, position by position\<close>

text \<open>
  Both loops are recursions that carry their index along. The lemmas below rewrite them as
  a \<open>map\<close> over the positions \<open>0, \<dots>, length - 1\<close>, once for the case without a callback and
  once for the case with one.
\<close>

lemma join_map_Inr: "join (map (\<lambda>k. Inr (g k)) ks) = Inr (concat (map g ks))"
  by (induction ks) simp_all

lemma upt_0_Suc_map: "[0..<Suc n] = 0 # map Suc [0..<n]"
  by (simp add: upt_conv_Cons map_Suc_upt del: upt_Suc)

lemma length_concat_unit_pieces:
  "(\<forall>k < n. length (g k) = 1) \<Longrightarrow> length (concat (map g [0..<n])) = n"
  by (induction n) simp_all

lemma customMask_normalizeOptions:
  "customMask (normalizeOptions options) = optional_customMask options"
  by (simp add: normalizeOptions_def optional_customMask_def split: option.splits)

lemma maskWithoutFormat_map_no_customMask:
  assumes "customMask options = None"
  shows "maskWithoutFormat_map options stripped len index chars =
     map (\<lambda>k. Inr (if chars ! k = CHR ''+'' then [chars ! k]
                    else if isCharVisible (int (index + k)) len options then [chars ! k]
                    else maskChar options))
       [0..<length chars]"
  using assms
proof (induction chars arbitrary: index)
  case Nil
  then show ?case by simp
next
  case (Cons c cs)
  have step: "map (\<lambda>k. Inr (if (c # cs) ! k = CHR ''+'' then [(c # cs) ! k]
                    else if isCharVisible (int (index + k)) len options then [(c # cs) ! k]
                    else maskChar options)) [0..<length (c # cs)]
     = Inr (if c = CHR ''+'' then [c]
            else if isCharVisible (int index) len options then [c] else maskChar options)
       # map (\<lambda>k. Inr (if cs ! k = CHR ''+'' then [cs ! k]
                    else if isCharVisible (int (Suc index + k)) len options then [cs ! k]
                    else maskChar options)) [0..<length cs]"
    by (simp add: upt_0_Suc_map comp_def del: upt_Suc)
  then show ?case
    by (subst step) (simp add: Cons)
qed



lemma maskWithFormat_map_no_customMask:
  assumes "customMask options = None"
  shows "maskWithFormat_map options phone totalDigits digitIndex charIndex chars =
     map (\<lambda>k. Inr (if isFormattingChar (chars ! k) then [chars ! k]
                    else if isCharVisible
                        (digitIndex + 1
                           + int (length (filter (\<lambda>c. \<not> isFormattingChar c) (take k chars))))
                        totalDigits options
                    then [chars ! k]
                    else maskChar options))
       [0..<length chars]"
  using assms
proof (induction chars arbitrary: digitIndex charIndex)
  case Nil
  then show ?case by simp
next
  case (Cons c cs)
  let ?d = "if isFormattingChar c then digitIndex else digitIndex + 1"
  have step: "map (\<lambda>k. Inr (if isFormattingChar ((c # cs) ! k) then [(c # cs) ! k]
                    else if isCharVisible
                        (digitIndex + 1
                           + int (length (filter (\<lambda>c. \<not> isFormattingChar c) (take k (c # cs)))))
                        totalDigits options
                    then [(c # cs) ! k]
                    else maskChar options)) [0..<length (c # cs)]
     = Inr (if isFormattingChar c then [c]
            else if isCharVisible (digitIndex + 1) totalDigits options then [c]
            else maskChar options)
       # map (\<lambda>k. Inr (if isFormattingChar (cs ! k) then [cs ! k]
                    else if isCharVisible
                        (?d + 1 + int (length (filter (\<lambda>c. \<not> isFormattingChar c) (take k cs))))
                        totalDigits options
                    then [cs ! k]
                    else maskChar options)) [0..<length cs]"
    by (simp add: upt_0_Suc_map comp_def add.assoc del: upt_Suc)
  then show ?case
    by (subst step) (simp add: Cons Let_def)
qed

subsection \<open>Digit-only mode\<close>

text \<open>
  C4. In digit-only mode without \<open>customMask\<close>, for every input: each \<open>+\<close> of the stripped
  string is passed through unmasked; the total that \<open>isCharVisible\<close> receives is the length of
  the stripped string, its \<open>+\<close> characters included; and the index that \<open>isCharVisible\<close>
  receives for a character is the character's index in the stripped string, so every \<open>+\<close>
  moves the indices of the characters after it up by one.
\<close>

theorem maskWithoutFormat_indices:
  assumes "customMask options = None"
  shows "maskWithoutFormat phone options =
     (let stripped = stripFormatting phone in
      Inr (concat (map
        (\<lambda>k. if stripped ! k = CHR ''+'' then [stripped ! k]
             else if isCharVisible (int k) (int (length stripped)) options then [stripped ! k]
             else maskChar options)
        [0..<length stripped])))"
  using assms
  by (simp add: maskWithoutFormat_def Let_def maskWithoutFormat_map_no_customMask join_map_Inr
      cong: if_cong)

text \<open>
  With \<open>showFirst = 2\<close> and \<open>showLast = 4\<close>, \<open>"+1 (234) 567-890"\<close> is stripped to the eleven
  characters \<open>"+1234567890"\<close>. The \<open>+\<close> takes index 0 of the \<open>showFirst\<close> window, so only one
  digit is shown at the front.
\<close>

theorem maskWithoutFormat_indices_witness:
  "maskWithoutFormat ''+1 (234) 567-890''
      (\<lparr>maskChar = ''*'', showFirst = 2, showLast = 4, visibleRanges = None,
        preserveFormat = False, customMask = None\<rparr> :: unit NormalizedOptions)
     = Inr ''+1*****7890''"
proof -
  let ?options = "\<lparr>maskChar = ''*'', showFirst = 2, showLast = 4, visibleRanges = None,
        preserveFormat = False, customMask = None\<rparr> :: unit NormalizedOptions"
  have c: "customMask ?options = None"
    by simp
  show ?thesis
    unfolding maskWithoutFormat_indices [OF c] by code_simp
qed

subsection \<open>Format-preserving mode\<close>

text \<open>
  C9. In format-preserving mode without \<open>customMask\<close>, a character that is neither a decimal
  digit nor a formatting character (a letter, say) is treated like a digit: it advances the
  running digit position, and \<open>isCharVisible\<close> decides whether it is kept or replaced by
  \<open>maskChar\<close>. The position given to \<open>isCharVisible\<close> is therefore the number of earlier
  non-formatting characters, while the total given to it counts decimal digits only. Such
  characters shift the positions of all later digits and can be masked themselves.
\<close>

theorem maskWithFormat_indices:
  assumes "customMask options = None"
  shows "maskWithFormat phone options =
     Inr (concat (map
       (\<lambda>k. if isFormattingChar (phone ! k) then [phone ! k]
            else if isCharVisible
                (int (length (filter (\<lambda>c. \<not> isFormattingChar c) (take k phone))))
                (int (length (filter isDigit phone))) options
            then [phone ! k]
            else maskChar options)
       [0..<length phone]))"
  using assms
  by (simp add: maskWithFormat_def Let_def maskWithFormat_map_no_customMask join_map_Inr
      cong: if_cong)

text \<open>
  In \<open>"ab12-345678"\<close> there are eight digits, so \<open>showLast = 4\<close> shows the positions from 4
  on. The letters take the positions 0 and 1: they are masked, and six digits stay visible
  instead of four.
\<close>

theorem maskWithFormat_indices_witness:
  "maskWithFormat ''ab12-345678''
      (\<lparr>maskChar = ''*'', showFirst = 0, showLast = 4, visibleRanges = None,
        preserveFormat = True, customMask = None\<rparr> :: unit NormalizedOptions)
     = Inr ''****-345678''"
proof -
  let ?options = "\<lparr>maskChar = ''*'', showFirst = 0, showLast = 4, visibleRanges = None,
        preserveFormat = True, customMask = None\<rparr> :: unit NormalizedOptions"
  have c: "customMask ?options = None"
    by simp
  show ?thesis
    unfolding maskWithFormat_indices [OF c] by code_simp
qed

subsection \<open>Output length\<close>

lemma maskWithFormat_no_customMask_length:
  assumes "customMask options = None" and "length (maskChar options) = 1"
  shows "\<exists>out. maskWithFormat phone options = Inr out \<and> length out = length phone"
  using assms
  by (simp add: maskWithFormat_def Let_def maskWithFormat_map_no_customMask join_map_Inr
      length_concat_unit_pieces)

lemma maskWithoutFormat_no_customMask_length:
  assumes "customMask options = None" and "length (maskChar options) = 1"
  shows "\<exists>out. maskWithoutFormat phone options = Inr out
           \<and> length out = length (stripFormatting phone)"
  using assms
  by (simp add: maskWithoutFormat_def Let_def maskWithoutFormat_map_no_customMask join_map_Inr
      length_concat_unit_pieces)

lemma filter_dropWhile_disjoint:
  "(\<forall>x. Q x \<longrightarrow> \<not> P x) \<Longrightarrow> filter P (dropWhile Q xs) = filter P xs"
  by (induction xs) auto

lemma stripFormatting_trim: "stripFormatting (trim s) = stripFormatting s"
proof -
  let ?P = "\<lambda>c. isDigit c \<or> c = CHR ''+''"
  have d: "\<forall>c. isWhiteSpace c \<longrightarrow> \<not> ?P c"
    by (auto simp add: isWhiteSpace_def isDigit_def)
  have "filter ?P (rev (dropWhile isWhiteSpace (rev (dropWhile isWhiteSpace s))))
          = rev (filter ?P (dropWhile isWhiteSpace (rev (dropWhile isWhiteSpace s))))"
    by (simp add: rev_filter)
  also have "\<dots> = rev (filter ?P (rev (dropWhile isWhiteSpace s)))"
    by (simp only: filter_dropWhile_disjoint [OF d])
  also have "\<dots> = filter ?P (dropWhile isWhiteSpace s)"
    by (simp add: rev_filter)
  also have "\<dots> = filter ?P s"
    by (simp only: filter_dropWhile_disjoint [OF d])
  finally show ?thesis
    by (simp add: stripFormatting_def trim_def)
qed

text \<open>
  C3, as amended. For every input that \<open>String\<close> converts (it throws a TypeError only for an
  object that has a \<open>toString\<close> property of its own, when that object is the input and has
  no \<open>phone\<close> property, or is the input's \<open>phone\<close> property) and every options argument
  without \<open>customMask\<close> whose resolved \<open>maskChar\<close> is a single character, \<open>maskPhone\<close> returns
  a string, and: when \<open>preserveFormat\<close> is true, the output is as long as the normalized
  (trimmed) input string; when \<open>preserveFormat\<close> is false, the output is as long as
  \<open>stripFormatting\<close> of the input string, unless the short-input bypass applies
  (\<open>visibleRanges\<close> not supplied and that stripped length at most \<open>showFirst + showLast\<close>);
  where the bypass applies, the output is the normalized input string itself. By
  \<open>stripFormatting_trim\<close> it makes no difference to the stripped string whether the input
  was trimmed first.
\<close>

theorem maskPhone_output_length:
  assumes "optional_customMask options = None"
    and "length (maskChar (normalizeOptions options)) = 1"
    and "normalizePhone phone = Some phoneStr"
  shows "\<exists>out. maskPhone phone options = Inr out
     \<and> (preserveFormat (normalizeOptions options) \<longrightarrow> length out = length phoneStr)
     \<and> (optional_visibleRanges options = None
          \<and> int (length (stripFormatting phoneStr))
              \<le> showFirst (normalizeOptions options) + showLast (normalizeOptions options)
        \<longrightarrow> out = phoneStr)
     \<and> (\<not> preserveFormat (normalizeOptions options)
          \<and> \<not> (optional_visibleRanges options = None
                \<and> int (length (stripFormatting phoneStr))
                    \<le> showFirst (normalizeOptions options) + showLast (normalizeOptions options))
        \<longrightarrow> length out = length (stripFormatting phoneStr))"
proof -
  let ?n = "normalizeOptions options"
  have c: "customMask ?n = None"
    using assms(1) by (simp add: customMask_normalizeOptions)
  have empty: "stripFormatting [] = []"
    by (simp add: stripFormatting_def)
  show ?thesis
  proof (cases "phoneStr = []")
    case True
    then show ?thesis
      using assms(3) by (simp add: maskPhone_def empty)
  next
    case False
    then show ?thesis
      using maskWithFormat_no_customMask_length [OF c assms(2), of phoneStr]
        maskWithoutFormat_no_customMask_length [OF c assms(2), of phoneStr] assms(1) assms(3)
      by (auto simp add: maskPhone_def Let_def)
  qed
qed

text \<open>
  \<open>"+1 (555) 123-4567"\<close> has 17 characters, 12 of which are digits or \<open>+\<close>: the output has 12
  characters by default and 17 with \<open>preserveFormat: true\<close>. \<open>"12-34"\<close> takes the bypass and
  comes back as it is.
\<close>

theorem maskPhone_output_length_witness:
  "(\<exists>out. maskPhone (JString ''+1 (555) 123-4567'') (None :: unit thrown MaskOptions option)
         = Inr out
       \<and> length out = length ''+15551234567'')
   \<and> (\<exists>out. maskPhone (JString ''+1 (555) 123-4567'')
         (Some ((emptyOptions :: unit thrown MaskOptions)\<lparr>opt_preserveFormat := Some True\<rparr>))
         = Inr out
       \<and> length out = length ''+1 (555) 123-4567'')
   \<and> maskPhone (JString ''12-34'') (None :: unit thrown MaskOptions option) = Inr ''12-34''"
proof -
  let ?phone = "JString ''+1 (555) 123-4567''"
  let ?none = "None :: unit thrown MaskOptions option"
  let ?keep = "Some ((emptyOptions :: unit thrown MaskOptions)\<lparr>opt_preserveFormat := Some True\<rparr>)"
  have c1: "optional_customMask ?none = None"
    by (simp add: optional_customMask_def)
  have c2: "optional_customMask ?keep = None"
    by (simp add: optional_customMask_def emptyOptions_def)
  have v1: "optional_visibleRanges ?none = None"
    by (simp add: optional_visibleRanges_def)
  have m1: "length (maskChar (normalizeOptions ?none)) = 1"
    by code_simp
  have m2: "length (maskChar (normalizeOptions ?keep)) = 1"
    by code_simp
  have n: "normalizePhone ?phone = Some ''+1 (555) 123-4567''"
    by code_simp
  have n': "normalizePhone (JString ''12-34'') = Some ''12-34''"
    by code_simp
  have s: "stripFormatting ''+1 (555) 123-4567'' = ''+15551234567''"
    by code_simp
  have s': "stripFormatting ''12-34'' = ''1234''"
    by code_simp
  have p1: "\<not> preserveFormat (normalizeOptions ?none)"
    by code_simp
  have p2: "preserveFormat (normalizeOptions ?keep)"
    by code_simp
  have t: "showFirst (normalizeOptions ?none) + showLast (normalizeOptions ?none) = 4"
    by code_simp
  show ?thesis
    using maskPhone_output_length [OF c1 m1 n]
      maskPhone_output_length [OF c2 m2 n]
      maskPhone_output_length [OF c1 m1 n']
    by (auto simp add: s s' p1 p2 t v1)
qed

text \<open>
  Without the exception for the bypass the statement fails:
  \<open>maskPhone("12-34", {maskChar: "*", preserveFormat: false})\<close> returns \<open>"12-34"\<close>, five
  characters, while \<open>stripFormatting("12-34")\<close> has four.
\<close>

theorem maskPhone_output_length_counterexample:
  "opt_customMask ((emptyOptions :: unit thrown MaskOptions)
       \<lparr>opt_maskChar := Some ''*'', opt_preserveFormat := Some False\<rparr>) = None
   \<and> maskPhone (JString ''12-34'')
       (Some ((emptyOptions :: unit thrown MaskOptions)
          \<lparr>opt_maskChar := Some ''*'', opt_preserveFormat := Some False\<rparr>))
      = Inr ''12-34''
   \<and> stripFormatting ''12-34'' = ''1234''
   \<and> length ''12-34'' \<noteq> length (stripFormatting ''12-34'')"
proof -
  have "opt_customMask ((emptyOptions :: unit thrown MaskOptions)
       \<lparr>opt_maskChar := Some ''*'', opt_preserveFormat := Some False\<rparr>) = None"
    by (simp add: emptyOptions_def)
  moreover have "maskPhone (JString ''12-34'')
       (Some ((emptyOptions :: unit thrown MaskOptions)
          \<lparr>opt_maskChar := Some ''*'', opt_preserveFormat := Some False\<rparr>))
      = Inr ''12-34''"
    by code_simp
  moreover have "stripFormatting ''12-34'' = ''1234''"
    by code_simp
  ultimately show ?thesis
    by simp
qed

subsection \<open>\<open>customMask\<close>\<close>



subsection \<open>Objects whose \<open>phone\<close> property is null or undefined\<close>

lemma normalizePhone_nullish_phone:
  assumes "map_of props ''phone'' = Some v" and "v = JNull \<or> v = JUndefined"
  shows "normalizePhone (JObject props) = Some (if v = JNull then ''null'' else ''undefined'')"
proof -
  have "trim ''null'' = ''null''" and "trim ''undefined'' = ''undefined''"
    by code_simp+
  then show ?thesis
    using assms by (auto simp add: normalizePhone_def)
qed

text \<open>
  C10, as amended. For every object input whose \<open>phone\<close> property is null or undefined,
  \<open>normalizePhone\<close> yields the string \<open>"null"\<close> or \<open>"undefined"\<close> respectively, not the empty
  string: only the outer input value is tested against null and undefined, before the
  property is extracted and passed to \<open>String\<close>. \<open>maskPhone\<close> returns that string whenever the
  options supply neither \<open>customMask\<close> nor \<open>visibleRanges\<close> and the resolved
  \<open>showFirst + showLast\<close> is not negative, in particular when it is called without options.
\<close>

theorem maskPhone_object_nullish_phone:
  assumes "map_of props ''phone'' = Some v" and "v = JNull \<or> v = JUndefined"
  shows "normalizePhone (JObject props) = Some (if v = JNull then ''null'' else ''undefined'')
     \<and> (optional_customMask options = None \<and> optional_visibleRanges options = None
          \<and> 0 \<le> showFirst (normalizeOptions options) + showLast (normalizeOptions options)
        \<longrightarrow> maskPhone (JObject props) options
              = Inr (if v = JNull then ''null'' else ''undefined''))"
proof -
  have s: "stripFormatting ''null'' = []" "stripFormatting ''undefined'' = []"
    by code_simp+
  show ?thesis
    using assms normalizePhone_nullish_phone [OF assms]
    by (auto simp add: maskPhone_def Let_def s)
qed

theorem maskPhone_object_nullish_phone_witness:
  "normalizePhone (JObject [(''name'', JString ''Ann''), (''phone'', JNull)]) = Some ''null''
   \<and> maskPhone (JObject [(''name'', JString ''Ann''), (''phone'', JNull)])
        (None :: unit thrown MaskOptions option) = Inr ''null''
   \<and> maskPhone (JObject [(''phone'', JUndefined)])
        (Some ((emptyOptions :: unit thrown MaskOptions)\<lparr>opt_maskChar := Some ''#''\<rparr>))
       = Inr ''undefined''"
proof -
  let ?none = "None :: unit thrown MaskOptions option"
  let ?hash = "Some ((emptyOptions :: unit thrown MaskOptions)\<lparr>opt_maskChar := Some ''#''\<rparr>)"
  have p1: "map_of [(''name'', JString ''Ann''), (''phone'', JNull)] ''phone'' = Some JNull"
    by simp
  have p2: "map_of [(''phone'', JUndefined)] ''phone'' = Some JUndefined"
    by simp
  have b1: "optional_customMask ?none = None \<and> optional_visibleRanges ?none = None
      \<and> 0 \<le> showFirst (normalizeOptions ?none) + showLast (normalizeOptions ?none)"
    by (simp add: optional_customMask_def optional_visibleRanges_def normalizeOptions_def
        DEFAULT_OPTIONS_defs)
  have b2: "optional_customMask ?hash = None \<and> optional_visibleRanges ?hash = None
      \<and> 0 \<le> showFirst (normalizeOptions ?hash) + showLast (normalizeOptions ?hash)"
    by (simp add: optional_customMask_def optional_visibleRanges_def normalizeOptions_def
        DEFAULT_OPTIONS_defs emptyOptions_def nullish_def nullish_opt_def)
  show ?thesis
    using maskPhone_object_nullish_phone [OF p1, of ?none]
      maskPhone_object_nullish_phone [OF p2, of ?hash] b1 b2
    by simp
qed

text \<open>
  For other options the result can differ: with \<open>visibleRanges\<close> the bypass is skipped,
  \<open>"null"\<close> contains no digit and no \<open>+\<close>, and digit-only mode returns the empty string.
\<close>

theorem maskPhone_object_nullish_phone_counterexample:
  "map_of [(''phone'', JNull)] ''phone'' = Some JNull
   \<and> maskPhone (JObject [(''phone'', JNull)])
        (Some ((emptyOptions :: unit thrown MaskOptions)\<lparr>opt_visibleRanges := Some [(0, 3)]\<rparr>))
       = Inr []
   \<and> maskPhone (JObject [(''phone'', JNull)])
        (Some ((emptyOptions :: unit thrown MaskOptions)\<lparr>opt_visibleRanges := Some [(0, 3)]\<rparr>))
       \<noteq> Inr ''null''"
proof -
  have "maskPhone (JObject [(''phone'', JNull)])
        (Some ((emptyOptions :: unit thrown MaskOptions)\<lparr>opt_visibleRanges := Some [(0, 3)]\<rparr>))
       = Inr []"
    by code_simp
  then show ?thesis
    by simp
qed

end
